theory Spec2Isabelle
  imports Complex_Main
begin

section \<open>PDFix: a shallow embedding of \<^verbatim>\<open>src/PDFix.py\<close>\<close>

text \<open>
  The program walks a directory tree, and for each PDF it opens the file with the PDF
  engine (PyMuPDF, \<^verbatim>\<open>fitz\<close>), saves an optimised copy to a temporary file beside it and
  replaces the original when the copy is smaller. The file system and the PDF engine are
  outside the program; they are modelled as follows.

  \<^item> The file system is a finite map from paths to file contents, with a set of
    \<^emph>\<open>protected\<close> paths (creating, overwriting, renaming or deleting one raises
    \<^verbatim>\<open>PermissionError\<close>, an \<^verbatim>\<open>OSError\<close>) and a set of unreadable paths. Only
    regular files are modelled. \<^verbatim>\<open>os.rename\<close> and \<^verbatim>\<open>os.replace\<close> are atomic;
    \<^verbatim>\<open>shutil.move\<close> is not: when the rename is refused it copies and unlinks, and the
    copy may be interrupted.
  \<^item> The PDF engine is an oracle (record \<open>env\<close>): what \<^verbatim>\<open>fitz.open\<close> returns, what
    \<^verbatim>\<open>Document.save\<close> writes and which page copies fail are functions of the call site,
    the path and the file contents. An engine whose \<^verbatim>\<open>fitz.open\<close> is a function of the
    file alone is \<open>deterministic_open\<close>.
  \<^item> Exceptions are values: a function that may raise returns \<open>exn + 'a\<close>.
  \<^item> Console output: a \<^verbatim>\<open>print\<close> raises when the standard output cannot encode its
    text. This is modelled for the prints that stand after an effect of their block:
    after the counters of a success (lines 116--122), after the deletion of the
    temporary file (line 260), and in the handler of \<^verbatim>\<open>optimize_pdf\<close>
    (lines 265--279). The messages that announce an action before it is taken, and the
    messages of the walk's own handlers, are taken to be printed. The wall-clock fields
    of the statistics and the percentage derived at the end are not modelled.
\<close>

subsection \<open>Strings and POSIX paths\<close>

type_synonym path = string
type_synonym bytes = string

text \<open>\<^verbatim>\<open>str.lower()\<close>, on ASCII letters (a \<open>char\<close> is a byte).\<close>

definition lower_char :: "char \<Rightarrow> char" where
  "lower_char c =
     (case map_of (zip ''ABCDEFGHIJKLMNOPQRSTUVWXYZ'' ''abcdefghijklmnopqrstuvwxyz'') c of
        Some l \<Rightarrow> l
      | None \<Rightarrow> c)"

definition lower :: "string \<Rightarrow> string" where
  "lower s = map lower_char s"

text \<open>\<^verbatim>\<open>s.startswith(t)\<close>, \<^verbatim>\<open>s.endswith(t)\<close> and \<^verbatim>\<open>t in s\<close>.\<close>

fun startswith :: "string \<Rightarrow> string \<Rightarrow> bool" where
  "startswith s [] = True"
| "startswith [] (t # ts) = False"
| "startswith (c # cs) (t # ts) = (c = t \<and> startswith cs ts)"

definition endswith :: "string \<Rightarrow> string \<Rightarrow> bool" where
  "endswith s t = startswith (rev s) (rev t)"

fun contains :: "string \<Rightarrow> string \<Rightarrow> bool" where
  "contains [] t = (t = [])"
| "contains (c # cs) t = (startswith (c # cs) t \<or> contains cs t)"

text \<open>\<^verbatim>\<open>str(n)\<close> for a natural number: its decimal digits.\<close>

definition digit_char :: "nat \<Rightarrow> char" where
  "digit_char d = ''0123456789'' ! d"

fun str_nat :: "nat \<Rightarrow> string" where
  "str_nat n = (if n < 10 then [digit_char n] else str_nat (n div 10) @ [digit_char (n mod 10)])"

declare str_nat.simps [simp del]

text \<open>
  \<^verbatim>\<open>posixpath.basename\<close>, \<^verbatim>\<open>posixpath.dirname\<close> and \<^verbatim>\<open>posixpath.join\<close> (two
  arguments). \<open>split_head p\<close> is \<^verbatim>\<open>p[:i]\<close> and \<open>basename p\<close> is \<^verbatim>\<open>p[i:]\<close> for
  \<^verbatim>\<open>i = p.rfind('/') + 1\<close>.
\<close>

definition basename :: "path \<Rightarrow> string" where
  "basename p = rev (takeWhile (\<lambda>c. c \<noteq> CHR ''/'') (rev p))"

definition split_head :: "path \<Rightarrow> string" where
  "split_head p = rev (dropWhile (\<lambda>c. c \<noteq> CHR ''/'') (rev p))"

definition rstrip_slash :: "string \<Rightarrow> string" where
  "rstrip_slash s = rev (dropWhile (\<lambda>c. c = CHR ''/'') (rev s))"

definition dirname :: "path \<Rightarrow> string" where
  "dirname p =
     (let head = split_head p
      in if head \<noteq> [] \<and> head \<noteq> replicate (length head) CHR ''/''
         then rstrip_slash head else head)"

definition join :: "path \<Rightarrow> string \<Rightarrow> path" where
  "join a b =
     (if startswith b ''/'' then b
      else if a = [] \<or> endswith a ''/'' then a @ b
      else a @ ''/'' @ b)"

subsection \<open>Exceptions\<close>

datatype exn =
    OSError string
  | RuntimeError string
  | ValueError string
  | TypeError string
  | UnboundLocalError string
  | UnicodeEncodeError string
  | Exception string

text \<open>\<^verbatim>\<open>str(e)\<close>\<close>

fun str_exn :: "exn \<Rightarrow> string" where
  "str_exn (OSError m) = m"
| "str_exn (RuntimeError m) = m"
| "str_exn (ValueError m) = m"
| "str_exn (TypeError m) = m"
| "str_exn (UnboundLocalError m) = m"
| "str_exn (UnicodeEncodeError m) = m"
| "str_exn (Exception m) = m"

subsection \<open>The world and the environment\<close>

datatype event = EvOpen path | EvSave path bool | EvClose path

record world =
  files :: "path \<rightharpoonup> bytes"
  protected :: "path set"
  unreadable :: "path set"
  log :: "event list"

record docinfo =
  is_encrypted :: bool
  is_pdf :: bool
  page_count :: nat

text \<open>A \<^verbatim>\<open>fitz.Document\<close> handle: what the engine read, the file it was opened from, and
  whether \<^verbatim>\<open>close()\<close> has been called.\<close>

record document =
  doc_info :: docinfo
  doc_name :: path
  doc_closed :: bool

record save_opts =
  opt_incremental :: bool
  opt_garbage :: nat
  opt_deflate :: bool
  opt_clean :: bool

datatype save_result = Saved bytes | SaveFailed exn "bytes option"

text \<open>
  What happens to a copy of one file onto another (\<^verbatim>\<open>shutil.copy2\<close>, that is
  \<^verbatim>\<open>copyfile\<close> followed by \<^verbatim>\<open>copystat\<close>): it completes; it is refused before the
  destination is touched; it is interrupted after the destination has been truncated
  and the given number of bytes written; or the content is copied and \<^verbatim>\<open>copystat\<close>
  raises.
\<close>

datatype copy_fault = CopyCompletes | CopyRefused | CopyInterrupted nat | CopyStatFails

text \<open>
  The environment of one run. The numbers of the call sites are: \<open>fitz_open_result\<close> 1 is
  line 178, 2 is line 351, 3 is line 369, 4 is line 396, 5 is line 404;
  \<open>fitz_save_result\<close> 1 is line 203, 2 is line 218, 3 is line 383. A failed save may
  leave a partial file behind (\<open>SaveFailed e (Some b)\<close>).

  \<open>stdout_encodes\<close> says which texts the encoding of the standard output can encode,
  \<open>stdout_encodes_arrow\<close> whether it can encode the arrow U+2192 of lines 118, 270 and
  272. \<open>rename_raises\<close>, \<open>copy_fault\<close> and \<open>unlink_raises\<close> are the faults of the
  operating system on \<^verbatim>\<open>os.rename\<close>, on a copy and on \<^verbatim>\<open>os.unlink\<close>.
\<close>

record env =
  getpid :: nat
  time_now :: nat
  fitz_open_result :: "nat \<Rightarrow> path \<Rightarrow> bytes \<Rightarrow> exn + docinfo"
  fitz_save_result :: "nat \<Rightarrow> path \<Rightarrow> docinfo \<Rightarrow> save_opts \<Rightarrow> save_result"
  insert_pdf_raises :: "path \<Rightarrow> nat \<Rightarrow> bool"
  named_temp :: "path \<Rightarrow> exn + path"
  disk_free :: "path \<Rightarrow> exn + nat"
  stdout_encodes :: "string \<Rightarrow> bool"
  stdout_encodes_arrow :: bool
  rename_raises :: "path \<Rightarrow> path \<Rightarrow> bool"
  copy_fault :: "path \<Rightarrow> path \<Rightarrow> copy_fault"
  unlink_raises :: "path \<Rightarrow> bool"

subsection \<open>Console output\<close>

text \<open>
  \<^verbatim>\<open>print(text)\<close> raises \<^verbatim>\<open>UnicodeEncodeError\<close> when the standard output cannot
  encode the text. The fixed parts of the program's messages are ASCII but for the arrow;
  \<open>values\<close> are the strings that the message interpolates (a path, the text of an
  exception), \<open>arrow\<close> says whether the message holds the arrow.
\<close>

definition print_ok :: "env \<Rightarrow> bool \<Rightarrow> string list \<Rightarrow> bool" where
  "print_ok en arrow values =
     (list_all (stdout_encodes en) values \<and> (if arrow then stdout_encodes_arrow en else True))"

definition py_print :: "env \<Rightarrow> bool \<Rightarrow> string list \<Rightarrow> exn + unit" where
  "py_print en arrow values =
     (if print_ok en arrow values then Inr ()
      else Inl (UnicodeEncodeError ''codec cannot encode character''))"

subsection \<open>The file system\<close>

text \<open>\<^verbatim>\<open>os.path.exists\<close>, \<^verbatim>\<open>os.access(p, os.R_OK)\<close>, \<^verbatim>\<open>os.path.getsize\<close>\<close>

definition path_exists :: "world \<Rightarrow> path \<Rightarrow> bool" where
  "path_exists w p = (files w p \<noteq> None)"

definition access_R_OK :: "world \<Rightarrow> path \<Rightarrow> bool" where
  "access_R_OK w p = (files w p \<noteq> None \<and> p \<notin> unreadable w)"

definition getsize :: "world \<Rightarrow> path \<Rightarrow> exn + nat" where
  "getsize w p =
     (case files w p of
        None \<Rightarrow> Inl (OSError ''No such file or directory'')
      | Some c \<Rightarrow> Inr (length c))"

definition write_file :: "world \<Rightarrow> path \<Rightarrow> bytes \<Rightarrow> world" where
  "write_file w p b = w\<lparr>files := (files w)(p \<mapsto> b)\<rparr>"

text \<open>\<^verbatim>\<open>os.remove\<close> / \<^verbatim>\<open>os.unlink\<close>\<close>

definition os_remove :: "env \<Rightarrow> world \<Rightarrow> path \<Rightarrow> world \<times> (exn + unit)" where
  "os_remove en w p =
     (case files w p of
        None \<Rightarrow> (w, Inl (OSError ''No such file or directory''))
      | Some c \<Rightarrow>
          if p \<in> protected w \<or> unlink_raises en p then (w, Inl (OSError ''Permission denied''))
          else (w\<lparr>files := (files w)(p := None)\<rparr>, Inr ()))"

text \<open>\<^verbatim>\<open>os.replace(src, dst)\<close>: an atomic rename.\<close>

definition os_replace :: "world \<Rightarrow> path \<Rightarrow> path \<Rightarrow> world \<times> (exn + unit)" where
  "os_replace w src dst =
     (case files w src of
        None \<Rightarrow> (w, Inl (OSError ''No such file or directory''))
      | Some c \<Rightarrow>
          if src \<in> protected w \<or> dst \<in> protected w then (w, Inl (OSError ''Permission denied''))
          else (w\<lparr>files := ((files w)(src := None))(dst \<mapsto> c)\<rparr>, Inr ()))"

text \<open>\<^verbatim>\<open>os.rename(src, dst)\<close>: atomic when it succeeds; it raises \<^verbatim>\<open>OSError\<close> and
  changes nothing when the operating system refuses it (on Windows, whenever the
  destination exists).\<close>

definition os_rename :: "env \<Rightarrow> world \<Rightarrow> path \<Rightarrow> path \<Rightarrow> world \<times> (exn + unit)" where
  "os_rename en w src dst =
     (case files w src of
        None \<Rightarrow> (w, Inl (OSError ''No such file or directory''))
      | Some c \<Rightarrow>
          if src \<in> protected w \<or> dst \<in> protected w \<or> rename_raises en src dst
          then (w, Inl (OSError ''Operation not permitted''))
          else (w\<lparr>files := ((files w)(src := None))(dst \<mapsto> c)\<rparr>, Inr ()))"

text \<open>\<^verbatim>\<open>shutil.copy2(src, dst)\<close>\<close>

definition shutil_copy2 :: "env \<Rightarrow> world \<Rightarrow> path \<Rightarrow> path \<Rightarrow> world \<times> (exn + unit)" where
  "shutil_copy2 en w src dst =
     (case files w src of
        None \<Rightarrow> (w, Inl (OSError ''No such file or directory''))
      | Some c \<Rightarrow>
          if src = dst then (w, Inl (OSError ''are the same file''))
          else if src \<in> unreadable w \<or> dst \<in> protected w
          then (w, Inl (OSError ''Permission denied''))
          else
            (case copy_fault en src dst of
               CopyCompletes \<Rightarrow> (write_file w dst c, Inr ())
             | CopyRefused \<Rightarrow> (w, Inl (OSError ''Permission denied''))
             | CopyInterrupted k \<Rightarrow> (write_file w dst (take k c), Inl (OSError ''Input/output error''))
             | CopyStatFails \<Rightarrow> (write_file w dst c, Inl (OSError ''Operation not permitted''))))"

text \<open>
  \<^verbatim>\<open>shutil.move(src, dst)\<close> for a destination that is not a directory and a source that
  is a regular file: \<^verbatim>\<open>os.rename\<close>, and when that raises \<^verbatim>\<open>OSError\<close>, a copy with
  \<^verbatim>\<open>copy2\<close> followed by \<^verbatim>\<open>os.unlink(src)\<close>. An exception of the copy or of the unlink
  leaves the function, whatever has been written by then.
\<close>

definition shutil_move :: "env \<Rightarrow> world \<Rightarrow> path \<Rightarrow> path \<Rightarrow> world \<times> (exn + unit)" where
  "shutil_move en w src dst =
     (case os_rename en w src dst of
        (w1, Inr u) \<Rightarrow> (w1, Inr ())
      | (w1, Inl rename_error) \<Rightarrow>
          (case shutil_copy2 en w1 src dst of
             (w2, Inl e) \<Rightarrow> (w2, Inl e)
           | (w2, Inr u) \<Rightarrow> os_remove en w2 src))"

subsection \<open>The PDF engine\<close>

text \<open>\<^verbatim>\<open>fitz.open(p)\<close>\<close>

definition fitz_open :: "env \<Rightarrow> nat \<Rightarrow> world \<Rightarrow> path \<Rightarrow> world \<times> (exn + document)" where
  "fitz_open en site w p =
     (w\<lparr>log := log w @ [EvOpen p]\<rparr>,
      case files w p of
        None \<Rightarrow> Inl (RuntimeError ''no such file'')
      | Some c \<Rightarrow>
          (case fitz_open_result en site p c of
             Inl e \<Rightarrow> Inl e
           | Inr i \<Rightarrow> Inr \<lparr>doc_info = i, doc_name = p, doc_closed = False\<rparr>))"

text \<open>\<^verbatim>\<open>fitz.open()\<close> with the pages copied so far: a new document in memory.\<close>

definition new_document :: "nat \<Rightarrow> document" where
  "new_document n =
     \<lparr>doc_info = \<lparr>is_encrypted = False, is_pdf = True, page_count = n\<rparr>,
      doc_name = [], doc_closed = False\<rparr>"

text \<open>\<^verbatim>\<open>Document.close()\<close> raises \<^verbatim>\<open>ValueError\<close> on a closed document, and only then.\<close>

definition doc_close :: "world \<Rightarrow> document \<Rightarrow> world \<times> (exn + document)" where
  "doc_close w d =
     (if doc_closed d then (w, Inl (ValueError ''document closed''))
      else (w\<lparr>log := log w @ [EvClose (doc_name d)]\<rparr>, Inr (d\<lparr>doc_closed := True\<rparr>)))"

text \<open>\<^verbatim>\<open>len(doc)\<close>, which decides the truth value of a document: the page count, and
  \<^verbatim>\<open>ValueError\<close> on a closed document.\<close>

definition doc_len :: "document \<Rightarrow> exn + nat" where
  "doc_len d =
     (if doc_closed d then Inl (ValueError ''document closed'')
      else Inr (page_count (doc_info d)))"

text \<open>\<^verbatim>\<open>Document.save(target, ...)\<close>\<close>

definition doc_save ::
  "env \<Rightarrow> nat \<Rightarrow> world \<Rightarrow> document \<Rightarrow> path \<Rightarrow> save_opts \<Rightarrow> world \<times> (exn + unit)" where
  "doc_save en site w d target opts =
     (if doc_closed d then (w, Inl (ValueError ''document closed''))
      else
        let w1 = w\<lparr>log := log w @ [EvSave target (opt_incremental opts)]\<rparr>
        in if target \<in> protected w then (w1, Inl (OSError ''Permission denied''))
           else
             (case fitz_save_result en site (doc_name d) (doc_info d) opts of
                Saved b \<Rightarrow> (write_file w1 target b, Inr ())
              | SaveFailed e part \<Rightarrow>
                  (case part of
                     None \<Rightarrow> (w1, Inl e)
                   | Some b \<Rightarrow> (write_file w1 target b, Inl e))))"

text \<open>\<^verbatim>\<open>tempfile.NamedTemporaryFile(delete=False, suffix='.pdf')\<close> followed by
  \<^verbatim>\<open>close()\<close>: an empty file under a name the environment chooses. The file is created
  exclusively: a name that exists is not taken.\<close>

definition named_temporary_file :: "env \<Rightarrow> world \<Rightarrow> path \<Rightarrow> world \<times> (exn + path)" where
  "named_temporary_file en w key =
     (case named_temp en key of
        Inl e \<Rightarrow> (w, Inl e)
      | Inr t \<Rightarrow>
          if path_exists w t then (w, Inl (OSError ''No usable temporary file name found''))
          else if t \<in> protected w then (w, Inl (OSError ''Permission denied''))
          else (write_file w t [], Inr t))"

subsection \<open>The Repair Pipeline: \<^verbatim>\<open>page_by_page_recovery\<close> (lines 339--418)\<close>

text \<open>Lines 349--357: open the path normally; a document that is a PDF with at least
  one page is returned, any exception is printed and dropped.\<close>

definition direct_open :: "env \<Rightarrow> world \<Rightarrow> path \<Rightarrow> world \<times> document option" where
  "direct_open en w p =
     (case fitz_open en 2 w p of
        (w1, Inl e) \<Rightarrow> (w1, None)
      | (w1, Inr d) \<Rightarrow>
          if is_pdf (doc_info d) \<and> 0 < page_count (doc_info d) then (w1, Some d)
          else (fst (doc_close w1 d), None))"

text \<open>
  Lines 366--393: open the source, copy its pages one by one into a new document
  (a page whose copy raises is skipped), save the new document to \<open>tmp\<close>. On an
  exception the handler closes \<^verbatim>\<open>src_doc\<close> if it is true (it has a page) and raises
  again; the \<^verbatim>\<open>finally\<close> clause then tests \<^verbatim>\<open>src_doc\<close> once more, which on the closed
  document raises \<^verbatim>\<open>ValueError\<close>.
\<close>

definition default_save_opts :: save_opts where
  "default_save_opts =
     \<lparr>opt_incremental = False, opt_garbage = 0, opt_deflate = False, opt_clean = False\<rparr>"

definition copied_pages :: "env \<Rightarrow> path \<Rightarrow> nat \<Rightarrow> nat list" where
  "copied_pages en p n = filter (\<lambda>k. \<not> insert_pdf_raises en p k) [0..<n]"

definition copy_pages :: "env \<Rightarrow> world \<Rightarrow> path \<Rightarrow> path \<Rightarrow> world \<times> (exn + unit)" where
  "copy_pages en w p tmp =
     (case fitz_open en 3 w p of
        (w1, Inl e) \<Rightarrow> (w1, Inl e)
      | (w1, Inr src) \<Rightarrow>
          let new_doc = new_document (length (copied_pages en p (page_count (doc_info src))))
          in (case doc_save en 3 w1 new_doc tmp default_save_opts of
                (w2, Inl e) \<Rightarrow>
                  if 0 < page_count (doc_info src)
                  then (fst (doc_close w2 src), Inl (ValueError ''document closed''))
                  else (w2, Inl e)
              | (w2, Inr u) \<Rightarrow>
                  let w3 = fst (doc_close w2 new_doc)
                  in if 0 < page_count (doc_info src) then (fst (doc_close w3 src), Inr ())
                     else (w3, Inr ())))"

text \<open>
  Lines 395--406: open the repaired file; if it has a page, copy it beside the original
  (\<^verbatim>\<open>pdf_path + '.repaired.pdf'\<close>), rename that copy over the original and return the
  original path opened again.
\<close>

definition install_repaired ::
  "env \<Rightarrow> world \<Rightarrow> path \<Rightarrow> path \<Rightarrow> world \<times> (exn + document option)" where
  "install_repaired en w p tmp =
     (case fitz_open en 4 w tmp of
        (w1, Inl e) \<Rightarrow> (w1, Inl e)
      | (w1, Inr repaired_doc) \<Rightarrow>
          if 0 < page_count (doc_info repaired_doc) then
            (let temp_repaired = p @ ''.repaired.pdf''
             in case shutil_copy2 en w1 tmp temp_repaired of
                  (w2, Inl e) \<Rightarrow> (w2, Inl e)
                | (w2, Inr u) \<Rightarrow>
                    (case os_replace w2 temp_repaired p of
                       (w3, Inl e) \<Rightarrow> (w3, Inl e)
                     | (w3, Inr u) \<Rightarrow>
                         (case doc_close w3 repaired_doc of
                            (w4, Inl e) \<Rightarrow> (w4, Inl e)
                          | (w4, Inr c) \<Rightarrow>
                              (case fitz_open en 5 w4 p of
                                 (w5, Inl e) \<Rightarrow> (w5, Inl e)
                               | (w5, Inr d) \<Rightarrow> (w5, Inr (Some d))))))
          else (fst (doc_close w1 repaired_doc), Inr None))"

text \<open>Lines 410--416, the \<^verbatim>\<open>finally\<close> clause, once \<^verbatim>\<open>temp_file\<close> is bound.\<close>

definition unlink_temp :: "env \<Rightarrow> world \<Rightarrow> path \<Rightarrow> world" where
  "unlink_temp en w tmp = (if path_exists w tmp then fst (os_remove en w tmp) else w)"

text \<open>
  The whole function. \<open>Inr None\<close> is \<^verbatim>\<open>return None\<close>, \<open>Inl e\<close> is an exception that
  leaves the function. The handler of line 408 catches every exception of lines
  360--406. When \<^verbatim>\<open>NamedTemporaryFile\<close> itself raises (line 362), \<^verbatim>\<open>temp_file\<close> is
  never bound, and the \<^verbatim>\<open>finally\<close> clause, which reads \<^verbatim>\<open>temp_file.name\<close>, raises
  \<^verbatim>\<open>UnboundLocalError\<close>.
\<close>

definition page_by_page_recovery ::
  "env \<Rightarrow> world \<Rightarrow> path \<Rightarrow> world \<times> (exn + document option)" where
  "page_by_page_recovery en w p =
     (case direct_open en w p of
        (w1, Some d) \<Rightarrow> (w1, Inr (Some d))
      | (w1, None) \<Rightarrow>
          (case named_temporary_file en w1 p of
             (w2, Inl e) \<Rightarrow>
               (w2, Inl (UnboundLocalError ''local variable temp_file referenced before assignment''))
           | (w2, Inr tmp) \<Rightarrow>
               (case copy_pages en w2 p tmp of
                  (w3, Inl e) \<Rightarrow> (unlink_temp en w3 tmp, Inr None)
                | (w3, Inr u) \<Rightarrow>
                    (case install_repaired en w3 p tmp of
                       (w4, Inl e) \<Rightarrow> (unlink_temp en w4 tmp, Inr None)
                     | (w4, Inr r) \<Rightarrow> (unlink_temp en w4 tmp, Inr r)))))"

text \<open>
  A call of \<^verbatim>\<open>page_by_page_recovery\<close> with the list of its positional arguments. The
  function has one parameter; any other number of arguments raises \<^verbatim>\<open>TypeError\<close>
  before the body runs.
\<close>

definition call_page_by_page_recovery ::
  "env \<Rightarrow> world \<Rightarrow> path list \<Rightarrow> world \<times> (exn + document option)" where
  "call_page_by_page_recovery en w args =
     (case args of
        [p] \<Rightarrow> page_by_page_recovery en w p
      | _ \<Rightarrow>
          (w, Inl (TypeError
             (''page_by_page_recovery() takes 1 positional argument but ''
                @ str_nat (length args) @ '' were given''))))"

subsection \<open>The Single-File Optimizer: \<^verbatim>\<open>optimize_pdf\<close> (lines 149--281)\<close>

record outcome =
  success :: bool
  original_size :: nat
  new_size :: nat
  error :: "string option"
  repaired :: bool

record params =
  garbage :: nat
  deflate :: bool
  clean :: bool

text \<open>Lines 162--168: the \<^verbatim>\<open>result\<close> dictionary as it is created.\<close>

definition initial_result :: "nat \<Rightarrow> outcome" where
  "initial_result osize =
     \<lparr>success = False, original_size = osize, new_size = osize, error = None,
      repaired = False\<rparr>"

text \<open>
  How a part of the \<^verbatim>\<open>try\<close> block of lines 175--261 ends: with an exception (the
  \<^verbatim>\<open>result\<close> dictionary as it is then goes to the handler), with \<^verbatim>\<open>return result\<close>, or
  by going on to the next statement.
\<close>

datatype 'a flow = Raise exn outcome | Return outcome | Next 'a

text \<open>Lines 170--173.\<close>

definition temp_filename :: "env \<Rightarrow> path \<Rightarrow> string" where
  "temp_filename en pdf_path =
     ''.temp_opt_'' @ basename pdf_path @ ''_'' @ str_nat (getpid en) @ ''_''
       @ str_nat (time_now en) @ ''.pdf''"

definition temp_optimized_pdf_path :: "env \<Rightarrow> path \<Rightarrow> path" where
  "temp_optimized_pdf_path en pdf_path = join (dirname pdf_path) (temp_filename en pdf_path)"

text \<open>Lines 176--188. \<^verbatim>\<open>not pdf_document\<close> is true for \<^verbatim>\<open>None\<close> and for a document
  with no page.\<close>

definition open_stage ::
  "env \<Rightarrow> world \<Rightarrow> path \<Rightarrow> bool \<Rightarrow> outcome \<Rightarrow> world \<times> (outcome \<times> document) flow" where
  "open_stage en w pdf_path repair_mode result =
     (case fitz_open en 1 w pdf_path of
        (w1, Inr d) \<Rightarrow> (w1, Next (result, d))
      | (w1, Inl e) \<Rightarrow>
          if \<not> repair_mode then (w1, Raise e result)
          else
            let result1 = result\<lparr>repaired := True\<rparr>
            in (case call_page_by_page_recovery en w1 [pdf_path] of
                  (w2, Inl e2) \<Rightarrow> (w2, Raise e2 result1)
                | (w2, Inr None) \<Rightarrow> (w2, Raise (Exception ''PDF repair failed'') result1)
                | (w2, Inr (Some d)) \<Rightarrow>
                    (case doc_len d of
                       Inl e3 \<Rightarrow> (w2, Raise e3 result1)
                     | Inr n \<Rightarrow>
                         if n = 0 then (w2, Raise (Exception ''PDF repair failed'') result1)
                         else (w2, Next (result1, d)))))"

text \<open>Lines 190--195.\<close>

definition encrypted_stage ::
  "world \<Rightarrow> outcome \<Rightarrow> document \<Rightarrow> world \<times> (outcome \<times> document) flow" where
  "encrypted_stage w result d =
     (if is_encrypted (doc_info d) then
        (case doc_close w d of
           (w1, Inl e) \<Rightarrow> (w1, Raise e result)
         | (w1, Inr d1) \<Rightarrow> (w1, Return (result\<lparr>error := Some ''PDF is encrypted''\<rparr>)))
      else (w, Next (result, d)))"

text \<open>Lines 201--233. The last resort of line 230 calls
  \<^verbatim>\<open>page_by_page_recovery(pdf_path, temp_optimized_pdf_path)\<close>, with two arguments.\<close>

definition save_stage ::
  "env \<Rightarrow> world \<Rightarrow> path \<Rightarrow> path \<Rightarrow> params \<Rightarrow> bool \<Rightarrow> outcome \<Rightarrow> document
     \<Rightarrow> world \<times> (outcome \<times> document) flow" where
  "save_stage en w pdf_path temp prm repair_mode result d =
     (case doc_save en 1 w d temp
             \<lparr>opt_incremental = False, opt_garbage = garbage prm,
              opt_deflate = deflate prm, opt_clean = clean prm\<rparr> of
        (w1, Inr u) \<Rightarrow> (w1, Next (result, d))
      | (w1, Inl save_error) \<Rightarrow>
          if \<not> repair_mode then (w1, Raise save_error result)
          else
            (case doc_save en 2 w1 d temp
                    \<lparr>opt_incremental = True, opt_garbage = 1,
                     opt_deflate = True, opt_clean = False\<rparr> of
               (w2, Inr u) \<Rightarrow> (w2, Next (result\<lparr>repaired := True\<rparr>, d))
             | (w2, Inl e2) \<Rightarrow>
                 (case doc_close w2 d of
                    (w3, Inl e3) \<Rightarrow> (w3, Raise e3 result)
                  | (w3, Inr d3) \<Rightarrow>
                      (case call_page_by_page_recovery en w3 [pdf_path, temp] of
                         (w4, Inl e4) \<Rightarrow> (w4, Raise e4 result)
                       | (w4, Inr None) \<Rightarrow>
                           (w4, Raise (Exception
                              ''Could not repair PDF even with page-by-page method'') result)
                       | (w4, Inr (Some r)) \<Rightarrow>
                           (case doc_len r of
                              Inl e5 \<Rightarrow> (w4, Raise e5 result)
                            | Inr n \<Rightarrow>
                                if n = 0 then
                                  (w4, Raise (Exception
                                     ''Could not repair PDF even with page-by-page method'') result)
                                else (w4, Next (result\<lparr>repaired := True\<rparr>, d3)))))))"

text \<open>Lines 235--261: close the document (a failure is ignored), check that the
  temporary file exists, and replace the original only if the new file is smaller. The
  message of line 260 is printed after the temporary file has been removed and before
  \<^verbatim>\<open>success\<close> is set.\<close>

definition commit_stage ::
  "env \<Rightarrow> world \<Rightarrow> path \<Rightarrow> path \<Rightarrow> outcome \<Rightarrow> document \<Rightarrow> world \<times> outcome flow" where
  "commit_stage en w pdf_path temp result d =
     (let w1 = fst (doc_close w d)
      in if \<not> path_exists w1 temp then
           (w1, Raise (Exception (''Temporary optimized file was not created: '' @ temp)) result)
         else
           (case getsize w1 temp of
              Inl e \<Rightarrow> (w1, Raise e result)
            | Inr nsize \<Rightarrow>
                if nsize < original_size result then
                  (case shutil_move en w1 temp pdf_path of
                     (w2, Inl e) \<Rightarrow>
                       (w2, Raise (Exception (''Failed to replace original file: '' @ str_exn e))
                              result)
                   | (w2, Inr u) \<Rightarrow> (w2, Next (result\<lparr>success := True, new_size := nsize\<rparr>)))
                else
                  (case os_remove en w1 temp of
                     (w2, Inl e) \<Rightarrow> (w2, Raise e result)
                   | (w2, Inr u) \<Rightarrow>
                       (case py_print en False [pdf_path] of
                          Inl e \<Rightarrow> (w2, Raise e result)
                        | Inr u \<Rightarrow> (w2, Next (result\<lparr>success := True\<rparr>))))))"

text \<open>The statements of the \<^verbatim>\<open>try\<close> block up to the end of the save attempts
  (lines 176--233), and the whole block.\<close>

definition save_attempts ::
  "env \<Rightarrow> world \<Rightarrow> path \<Rightarrow> params \<Rightarrow> bool \<Rightarrow> outcome \<Rightarrow> world \<times> (outcome \<times> document) flow" where
  "save_attempts en w pdf_path prm repair_mode result =
     (case open_stage en w pdf_path repair_mode result of
        (w1, Raise e r) \<Rightarrow> (w1, Raise e r)
      | (w1, Return r) \<Rightarrow> (w1, Return r)
      | (w1, Next (r1, d1)) \<Rightarrow>
          (case encrypted_stage w1 r1 d1 of
             (w2, Raise e r) \<Rightarrow> (w2, Raise e r)
           | (w2, Return r) \<Rightarrow> (w2, Return r)
           | (w2, Next (r2, d2)) \<Rightarrow>
               save_stage en w2 pdf_path (temp_optimized_pdf_path en pdf_path) prm repair_mode
                 r2 d2))"

definition try_block ::
  "env \<Rightarrow> world \<Rightarrow> path \<Rightarrow> params \<Rightarrow> bool \<Rightarrow> outcome \<Rightarrow> world \<times> outcome flow" where
  "try_block en w pdf_path prm repair_mode result =
     (case save_attempts en w pdf_path prm repair_mode result of
        (w1, Raise e r) \<Rightarrow> (w1, Raise e r)
      | (w1, Return r) \<Rightarrow> (w1, Return r)
      | (w1, Next (r1, d1)) \<Rightarrow>
          commit_stage en w1 pdf_path (temp_optimized_pdf_path en pdf_path) r1 d1)"

text \<open>
  Lines 263--279, the handler of the \<^verbatim>\<open>try\<close> block. It prints the path and the text
  of the exception (line 265), records the text, prints guidance for two kinds of text
  (lines 269--272, with the arrow), and removes the temporary file if it exists; a
  failure of the removal is printed (line 279). Nothing catches an exception of these
  prints: it leaves \<^verbatim>\<open>optimize_pdf\<close>.
\<close>

definition guidance :: "env \<Rightarrow> string \<Rightarrow> exn + unit" where
  "guidance en error_msg =
     (if contains error_msg ''cannot find object in xref'' then py_print en True []
      else if contains error_msg ''malformed or missing'' then py_print en True []
      else Inr ())"

definition cleanup_temp :: "env \<Rightarrow> world \<Rightarrow> path \<Rightarrow> world \<times> (exn + unit)" where
  "cleanup_temp en w temp =
     (if path_exists w temp then
        (case os_remove en w temp of
           (w1, Inl cleanup_error) \<Rightarrow> (w1, py_print en False [str_exn cleanup_error])
         | (w1, Inr u) \<Rightarrow> (w1, Inr ()))
      else (w, Inr ()))"

definition handler ::
  "env \<Rightarrow> world \<Rightarrow> path \<Rightarrow> path \<Rightarrow> exn \<Rightarrow> outcome \<Rightarrow> world \<times> (exn + outcome)" where
  "handler en w pdf_path temp e result =
     (let error_msg = str_exn e
      in case py_print en False [pdf_path, error_msg] of
           Inl e1 \<Rightarrow> (w, Inl e1)
         | Inr u \<Rightarrow>
             (case guidance en error_msg of
                Inl e2 \<Rightarrow> (w, Inl e2)
              | Inr u \<Rightarrow>
                  (case cleanup_temp en w temp of
                     (w1, Inl e3) \<Rightarrow> (w1, Inl e3)
                   | (w1, Inr u) \<Rightarrow> (w1, Inr (result\<lparr>error := Some error_msg\<rparr>)))))"

text \<open>The function. \<open>Inl e\<close> is an exception that reaches the caller: the size query of
  line 161 stands before the \<^verbatim>\<open>try\<close>, and the handler itself may raise.\<close>

definition optimize_pdf ::
  "env \<Rightarrow> world \<Rightarrow> path \<Rightarrow> params \<Rightarrow> bool \<Rightarrow> world \<times> (exn + outcome)" where
  "optimize_pdf en w pdf_path prm repair_mode =
     (case getsize w pdf_path of
        Inl e \<Rightarrow> (w, Inl e)
      | Inr osize \<Rightarrow>
          let result = initial_result osize
          in (case try_block en w pdf_path prm repair_mode result of
                (w1, Raise e r) \<Rightarrow> handler en w1 pdf_path (temp_optimized_pdf_path en pdf_path) e r
              | (w1, Return r) \<Rightarrow> (w1, Inr r)
              | (w1, Next r) \<Rightarrow> (w1, Inr r)))"

subsection \<open>The Directory Optimizer: \<^verbatim>\<open>optimize_pdfs\<close> (lines 10--146)\<close>

record stats =
  total_files :: nat
  optimized_files :: nat
  skipped_files :: nat
  failed_files :: nat
  repaired_files :: nat
  original_size_bytes :: nat
  optimized_size_bytes :: nat

definition initial_stats :: stats where
  "initial_stats =
     \<lparr>total_files = 0, optimized_files = 0, skipped_files = 0, failed_files = 0,
      repaired_files = 0, original_size_bytes = 0, optimized_size_bytes = 0\<rparr>"

text \<open>Lines 36--42: the table of compression levels, and its lookup with the medium
  level as default.\<close>

definition compression_params :: "int \<rightharpoonup> params" where
  "compression_params =
     [0 \<mapsto> \<lparr>garbage = 1, deflate = True, clean = True\<rparr>,
      1 \<mapsto> \<lparr>garbage = 3, deflate = True, clean = True\<rparr>,
      2 \<mapsto> \<lparr>garbage = 4, deflate = True, clean = True\<rparr>]"

definition params_of_level :: "int \<Rightarrow> params" where
  "params_of_level compression_level =
     (case compression_params compression_level of
        Some prm \<Rightarrow> prm
      | None \<Rightarrow> \<lparr>garbage = 3, deflate = True, clean = True\<rparr>)"

text \<open>
  Line 80: \<^verbatim>\<open>size_threshold_mb and file_size_mb < size_threshold_mb\<close>, where
  \<^verbatim>\<open>file_size_mb = file_size / (1024 * 1024)\<close>. \<open>None\<close> and zero are false. The
  quotient is exact in floating point for every size below \<open>2 ^ 53\<close>; it is a rational
  here.
\<close>

definition below_threshold :: "rat option \<Rightarrow> nat \<Rightarrow> bool" where
  "below_threshold size_threshold_mb file_size =
     (case size_threshold_mb of
        None \<Rightarrow> False
      | Some t \<Rightarrow> t \<noteq> 0 \<and> rat_of_nat file_size / (1024 * 1024) < t)"

text \<open>Lines 87--95: a failure of \<^verbatim>\<open>shutil.disk_usage\<close> is a warning.\<close>

definition low_disk_space :: "env \<Rightarrow> path \<Rightarrow> nat \<Rightarrow> bool" where
  "low_disk_space en pdf_path file_size =
     (case disk_free en (dirname pdf_path) of
        Inl e \<Rightarrow> False
      | Inr free \<Rightarrow> free < file_size * 2)"

text \<open>
  Lines 107--125: the outcome of the Single-File Optimizer enters the statistics. In the
  success branch the counters are updated first (lines 108--109), then the path
  (line 116) and the sizes with the arrow (lines 117--118) are printed, then the repair
  is counted and noted (lines 120--122). \<open>Inl (e, st)\<close> is an exception of one of these
  prints, with the statistics as they are when it is raised.
\<close>

definition count_outcome :: "env \<Rightarrow> path \<Rightarrow> stats \<Rightarrow> outcome \<Rightarrow> (exn \<times> stats) + stats" where
  "count_outcome en pdf_path st result =
     (if success result then
        (let st1 = st\<lparr>optimized_files := optimized_files st + 1,
                      optimized_size_bytes := optimized_size_bytes st + new_size result\<rparr>
         in case py_print en False [pdf_path] of
              Inl e \<Rightarrow> Inl (e, st1)
            | Inr u \<Rightarrow>
                (case py_print en True [] of
                   Inl e \<Rightarrow> Inl (e, st1)
                 | Inr u \<Rightarrow>
                     if repaired result then
                       (let st2 = st1\<lparr>repaired_files := repaired_files st1 + 1\<rparr>
                        in case py_print en False [] of
                             Inl e \<Rightarrow> Inl (e, st2)
                           | Inr u \<Rightarrow> Inr st2)
                     else Inr st1))
      else
        Inr (st\<lparr>failed_files := failed_files st + 1,
                optimized_size_bytes := optimized_size_bytes st + original_size result\<rparr>))"

text \<open>Lines 126--135: an exception of the \<^verbatim>\<open>try\<close> block of line 62.\<close>

definition count_exception :: "stats \<Rightarrow> world \<Rightarrow> path \<Rightarrow> stats" where
  "count_exception st w pdf_path =
     (let st1 = st\<lparr>failed_files := failed_files st + 1\<rparr>
      in if path_exists w pdf_path then
           (case getsize w pdf_path of
              Inl e \<Rightarrow> st1
            | Inr file_size \<Rightarrow>
                st1\<lparr>optimized_size_bytes := optimized_size_bytes st1 + file_size\<rparr>)
         else st1)"

definition skip_file :: "stats \<Rightarrow> nat \<Rightarrow> stats" where
  "skip_file st file_size =
     st\<lparr>skipped_files := skipped_files st + 1,
        optimized_size_bytes := optimized_size_bytes st + file_size\<rparr>"

text \<open>Lines 62--135, for one path that has been counted in \<^verbatim>\<open>total_files\<close>.\<close>

definition try_file ::
  "env \<Rightarrow> params \<Rightarrow> bool \<Rightarrow> rat option \<Rightarrow> bool \<Rightarrow> path \<Rightarrow> stats \<Rightarrow> world \<Rightarrow> stats \<times> world" where
  "try_file en prm backup size_threshold_mb repair_mode pdf_path st w =
     (if \<not> path_exists w pdf_path then (st\<lparr>failed_files := failed_files st + 1\<rparr>, w)
      else if \<not> access_R_OK w pdf_path then (st\<lparr>failed_files := failed_files st + 1\<rparr>, w)
      else
        (case getsize w pdf_path of
           Inl e \<Rightarrow> (st\<lparr>failed_files := failed_files st + 1\<rparr>, w)
         | Inr file_size \<Rightarrow>
             let st1 = st\<lparr>original_size_bytes := original_size_bytes st + file_size\<rparr>
             in if below_threshold size_threshold_mb file_size then (skip_file st1 file_size, w)
                else if low_disk_space en pdf_path file_size then (skip_file st1 file_size, w)
                else
                  let w1 = (if backup then fst (shutil_copy2 en w pdf_path (pdf_path @ ''.backup''))
                            else w)
                  in (case optimize_pdf en w1 pdf_path prm repair_mode of
                        (w2, Inr result) \<Rightarrow>
                          (case count_outcome en pdf_path st1 result of
                             Inr st2 \<Rightarrow> (st2, w2)
                           | Inl (e, st2) \<Rightarrow> (count_exception st2 w2 pdf_path, w2))
                      | (w2, Inl e) \<Rightarrow> (count_exception st1 w2 pdf_path, w2))))"

text \<open>Lines 49--135: one file name of one directory of the walk. The state is the
  statistics, the set \<^verbatim>\<open>processed_files\<close> and the world.\<close>

definition process_file ::
  "env \<Rightarrow> params \<Rightarrow> bool \<Rightarrow> rat option \<Rightarrow> bool \<Rightarrow> path \<Rightarrow> string
     \<Rightarrow> stats \<times> path set \<times> world \<Rightarrow> stats \<times> path set \<times> world" where
  "process_file en prm backup size_threshold_mb repair_mode root_dir file s =
     (case s of (st, processed_files, w) \<Rightarrow>
        if \<not> endswith (lower file) ''.pdf'' then s
        else
          let pdf_path = join root_dir file
          in if pdf_path \<in> processed_files \<or> contains pdf_path ''.temp_optimized.pdf'' then s
             else
               (case try_file en prm backup size_threshold_mb repair_mode pdf_path
                       (st\<lparr>total_files := total_files st + 1\<rparr>) w of
                  (st2, w2) \<Rightarrow> (st2, insert pdf_path processed_files, w2)))"

text \<open>
  The function. \<open>walk\<close> is what \<^verbatim>\<open>os.walk(directory)\<close> yields: the directories of the
  tree, each with the names of its files.
\<close>

definition walk_files ::
  "env \<Rightarrow> params \<Rightarrow> bool \<Rightarrow> rat option \<Rightarrow> bool \<Rightarrow> (path \<times> string list) list
     \<Rightarrow> stats \<times> path set \<times> world \<Rightarrow> stats \<times> path set \<times> world" where
  "walk_files en prm backup size_threshold_mb repair_mode walk s =
     fold (\<lambda>(root_dir, fs) s1.
            fold (process_file en prm backup size_threshold_mb repair_mode root_dir) fs s1)
       walk s"

definition optimize_pdfs ::
  "env \<Rightarrow> world \<Rightarrow> (path \<times> string list) list \<Rightarrow> int \<Rightarrow> bool \<Rightarrow> rat option \<Rightarrow> bool
     \<Rightarrow> stats \<times> world" where
  "optimize_pdfs en w walk compression_level backup size_threshold_mb repair_mode =
     (case walk_files en (params_of_level compression_level) backup size_threshold_mb repair_mode
             walk (initial_stats, {}, w) of
        (st, processed_files, w1) \<Rightarrow> (st, w1))"

subsection \<open>Properties of the statistics and of the walk, as predicates\<close>

text \<open>The classification of the counted files is exhaustive and disjoint.\<close>

definition counted :: "stats \<Rightarrow> bool" where
  "counted st = (total_files st = optimized_files st + skipped_files st + failed_files st)"

text \<open>A walk with every file name that does not end in \<^verbatim>\<open>.pdf\<close> removed.\<close>

definition pdf_names :: "string list \<Rightarrow> string list" where
  "pdf_names fs = filter (\<lambda>f. endswith (lower f) ''.pdf'') fs"

definition pdf_only :: "(path \<times> string list) list \<Rightarrow> (path \<times> string list) list" where
  "pdf_only walk = map (\<lambda>(root_dir, fs). (root_dir, pdf_names fs)) walk"

subsection \<open>Properties of the environment, as predicates\<close>


text \<open>The standard output can encode every text and the arrow: no \<^verbatim>\<open>print\<close> raises.\<close>

definition console_ok :: "env \<Rightarrow> bool" where
  "console_ok en = ((\<forall>s. stdout_encodes en s) \<and> stdout_encodes_arrow en)"

subsection \<open>Concrete environments and worlds\<close>

text \<open>A path, and the temporary path that \<^verbatim>\<open>optimize_pdf\<close> derives from it for
  process 4242 at time 1700000000.\<close>

abbreviation a_pdf :: path where
  "a_pdf \<equiv> ''/docs/a.pdf''"

abbreviation a_temp :: path where
  "a_temp \<equiv> ''/docs/.temp_opt_a.pdf_4242_1700000000.pdf''"

text \<open>A valid one-page PDF, an encrypted one, and a world with one file of ten bytes.\<close>

definition ok_info :: docinfo where
  "ok_info = \<lparr>is_encrypted = False, is_pdf = True, page_count = 1\<rparr>"


definition one_file :: "path \<Rightarrow> world" where
  "one_file p = \<lparr>files = [p \<mapsto> ''0123456789''], protected = {}, unreadable = {}, log = []\<rparr>"

text \<open>An engine that opens every file and saves three bytes.\<close>

definition ex_env :: env where
  "ex_env =
     \<lparr>getpid = 4242, time_now = 1700000000,
      fitz_open_result = (\<lambda>site p c. Inr ok_info),
      fitz_save_result = (\<lambda>site p i opts. Saved ''abc''),
      insert_pdf_raises = (\<lambda>p k. False),
      named_temp = (\<lambda>p. Inr ''/tmp/tmpq1.pdf''),
      disk_free = (\<lambda>p. Inr 1000000),
      stdout_encodes = (\<lambda>s. True), stdout_encodes_arrow = True,
      rename_raises = (\<lambda>src dst. False), copy_fault = (\<lambda>src dst. CopyCompletes),
      unlink_raises = (\<lambda>p. False)\<rparr>"



text \<open>The engine of \<open>ex_env\<close> on a standard output that cannot encode the arrow (an
  ASCII or Windows-1252 console).\<close>

definition noarrow_env :: env where
  "noarrow_env =
     \<lparr>getpid = 4242, time_now = 1700000000,
      fitz_open_result = (\<lambda>site p c. Inr ok_info),
      fitz_save_result = (\<lambda>site p i opts. Saved ''abc''),
      insert_pdf_raises = (\<lambda>p k. False),
      named_temp = (\<lambda>p. Inr ''/tmp/tmpq1.pdf''),
      disk_free = (\<lambda>p. Inr 1000000),
      stdout_encodes = (\<lambda>s. True), stdout_encodes_arrow = False,
      rename_raises = (\<lambda>src dst. False), copy_fault = (\<lambda>src dst. CopyCompletes),
      unlink_raises = (\<lambda>p. False)\<rparr>"


text \<open>An engine that opens every file and whose every save fails.\<close>

definition nosave_env :: env where
  "nosave_env =
     \<lparr>getpid = 4242, time_now = 1700000000,
      fitz_open_result = (\<lambda>site p c. Inr ok_info),
      fitz_save_result = (\<lambda>site p i opts. SaveFailed (RuntimeError ''cannot save'') None),
      insert_pdf_raises = (\<lambda>p k. False),
      named_temp = (\<lambda>p. Inr ''/tmp/tmpq1.pdf''),
      disk_free = (\<lambda>p. Inr 1000000),
      stdout_encodes = (\<lambda>s. True), stdout_encodes_arrow = True,
      rename_raises = (\<lambda>src dst. False), copy_fault = (\<lambda>src dst. CopyCompletes),
      unlink_raises = (\<lambda>p. False)\<rparr>"

text \<open>An engine that cannot open the file, in a system with no usable temporary
  directory.\<close>

definition notemp_env :: env where
  "notemp_env =
     \<lparr>getpid = 4242, time_now = 1700000000,
      fitz_open_result = (\<lambda>site p c. Inl (RuntimeError ''cannot open document'')),
      fitz_save_result = (\<lambda>site p i opts. Saved ''abc''),
      insert_pdf_raises = (\<lambda>p k. False),
      named_temp = (\<lambda>p. Inl (OSError ''No usable temporary directory found'')),
      disk_free = (\<lambda>p. Inr 1000000),
      stdout_encodes = (\<lambda>s. True), stdout_encodes_arrow = True,
      rename_raises = (\<lambda>src dst. False), copy_fault = (\<lambda>src dst. CopyCompletes),
      unlink_raises = (\<lambda>p. False)\<rparr>"



subsection \<open>Predicates on the result dictionary\<close>



section \<open>Properties\<close>

subsection \<open>The temporary path differs from the path\<close>










subsection \<open>Evaluation of the concrete environments\<close>

lemmas path_defs = temp_optimized_pdf_path_def temp_filename_def dirname_def split_head_def
  rstrip_slash_def join_def basename_def endswith_def str_nat.simps digit_char_def Let_def

lemmas fs_defs = path_exists_def access_R_OK_def getsize_def os_remove_def os_replace_def
  os_rename_def shutil_move_def shutil_copy2_def write_file_def named_temporary_file_def
  py_print_def print_ok_def

lemmas engine_defs = fitz_open_def new_document_def doc_close_def doc_len_def doc_save_def

lemmas repair_defs = direct_open_def default_save_opts_def copied_pages_def copy_pages_def
  install_repaired_def unlink_temp_def page_by_page_recovery_def

lemmas optimizer_defs = initial_result_def open_stage_def encrypted_stage_def save_stage_def
  commit_stage_def save_attempts_def try_block_def guidance_def cleanup_temp_def handler_def
  optimize_pdf_def

lemmas directory_defs = initial_stats_def compression_params_def params_of_level_def
  below_threshold_def low_disk_space_def count_outcome_def count_exception_def skip_file_def
  try_file_def process_file_def walk_files_def optimize_pdfs_def lower_def lower_char_def

lemma ex_env_simps:
  "getpid ex_env = 4242" "time_now ex_env = 1700000000"
  "fitz_open_result ex_env site p c = Inr ok_info"
  "fitz_save_result ex_env site p i opts = Saved ''abc''"
  "insert_pdf_raises ex_env p k = False"
  "named_temp ex_env p = Inr ''/tmp/tmpq1.pdf''"
  "disk_free ex_env p = Inr 1000000"
  "stdout_encodes ex_env s = True" "stdout_encodes_arrow ex_env = True"
  "rename_raises ex_env src dst = False" "copy_fault ex_env src dst = CopyCompletes"
  "unlink_raises ex_env q = False"
  by (simp_all add: ex_env_def)


lemma noarrow_env_simps:
  "getpid noarrow_env = 4242" "time_now noarrow_env = 1700000000"
  "fitz_open_result noarrow_env site p c = Inr ok_info"
  "fitz_save_result noarrow_env site p i opts = Saved ''abc''"
  "insert_pdf_raises noarrow_env p k = False"
  "named_temp noarrow_env p = Inr ''/tmp/tmpq1.pdf''"
  "disk_free noarrow_env p = Inr 1000000"
  "stdout_encodes noarrow_env s = True" "stdout_encodes_arrow noarrow_env = False"
  "rename_raises noarrow_env src dst = False" "copy_fault noarrow_env src dst = CopyCompletes"
  "unlink_raises noarrow_env q = False"
  by (simp_all add: noarrow_env_def)


lemma nosave_env_simps:
  "getpid nosave_env = 4242" "time_now nosave_env = 1700000000"
  "fitz_open_result nosave_env site p c = Inr ok_info"
  "fitz_save_result nosave_env site p i opts = SaveFailed (RuntimeError ''cannot save'') None"
  "insert_pdf_raises nosave_env p k = False"
  "named_temp nosave_env p = Inr ''/tmp/tmpq1.pdf''"
  "disk_free nosave_env p = Inr 1000000"
  "stdout_encodes nosave_env s = True" "stdout_encodes_arrow nosave_env = True"
  "rename_raises nosave_env src dst = False" "copy_fault nosave_env src dst = CopyCompletes"
  "unlink_raises nosave_env q = False"
  by (simp_all add: nosave_env_def)

lemma notemp_env_simps:
  "getpid notemp_env = 4242" "time_now notemp_env = 1700000000"
  "fitz_open_result notemp_env site p c = Inl (RuntimeError ''cannot open document'')"
  "fitz_save_result notemp_env site p i opts = Saved ''abc''"
  "insert_pdf_raises notemp_env p k = False"
  "named_temp notemp_env p = Inl (OSError ''No usable temporary directory found'')"
  "disk_free notemp_env p = Inr 1000000"
  "stdout_encodes notemp_env s = True" "stdout_encodes_arrow notemp_env = True"
  "rename_raises notemp_env src dst = False" "copy_fault notemp_env src dst = CopyCompletes"
  "unlink_raises notemp_env q = False"
  by (simp_all add: notemp_env_def)


text \<open>The temporary path of \<^verbatim>\<open>/docs/a.pdf\<close> for process 4242 at time 1700000000.\<close>

lemma temp_path_example:
  "getpid en = 4242 \<Longrightarrow> time_now en = 1700000000 \<Longrightarrow>
     temp_optimized_pdf_path en ''/docs/a.pdf'' = ''/docs/.temp_opt_a.pdf_4242_1700000000.pdf''"
  by (simp add: path_defs)

subsection \<open>A console that encodes everything\<close>

lemma console_ok_print: "console_ok en \<Longrightarrow> py_print en arrow values = Inr ()"
  by (simp add: console_ok_def py_print_def print_ok_def list_all_iff)



subsection \<open>Calls of the Repair Pipeline by argument list\<close>

lemma call_two_args:
  "call_page_by_page_recovery en w [p, t]
   = (w, Inl (TypeError ''page_by_page_recovery() takes 1 positional argument but 2 were given''))"
  by (simp add: call_page_by_page_recovery_def str_nat.simps digit_char_def)


subsection \<open>What the primitives leave unchanged\<close>

lemma fitz_open_frame:
  "fitz_open en s w p = (w', x) \<Longrightarrow> files w' = files w \<and> protected w' = protected w"
  by (auto simp: fitz_open_def)

lemma doc_close_frame:
  "doc_close w d = (w', x) \<Longrightarrow> files w' = files w \<and> protected w' = protected w"
  by (auto simp: doc_close_def split: if_splits)

lemma doc_close_fst [simp]:
  "files (fst (doc_close w d)) = files w" "protected (fst (doc_close w d)) = protected w"
  by (simp_all add: doc_close_def)



subsection \<open>The result dictionary through the stages\<close>









subsection \<open>The handler\<close>







subsection \<open>The statistics of a directory run\<close>

lemma count_exception_classes:
  "total_files (count_exception st w p) = total_files st \<and>
   optimized_files (count_exception st w p) + skipped_files (count_exception st w p)
     + failed_files (count_exception st w p)
   = optimized_files st + skipped_files st + failed_files st + 1"
  by (simp add: count_exception_def Let_def split: sum.splits)

lemma count_outcome_total:
  "count_outcome en p st r = Inr st' \<Longrightarrow> total_files st' = total_files st"
  "count_outcome en p st r = Inl (e, st') \<Longrightarrow> total_files st' = total_files st"
  by (auto simp: count_outcome_def Let_def split: if_splits sum.splits)

lemma count_outcome_console:
  assumes "console_ok en"
  shows "\<exists>st'. count_outcome en p st r = Inr st' \<and> total_files st' = total_files st
           \<and> optimized_files st' + skipped_files st' + failed_files st'
               = optimized_files st + skipped_files st + failed_files st + 1"
  using assms by (simp add: count_outcome_def console_ok_print Let_def)

lemma try_file_total:
  assumes "try_file en prm backup thr rm p st w = (st', w')"
  shows "total_files st' = total_files st"
  using assms count_exception_classes
  by (auto simp: try_file_def skip_file_def Let_def
           dest: count_outcome_total
           split: if_splits sum.splits prod.splits)

lemma try_file_classes:
  assumes "console_ok en" and "try_file en prm backup thr rm p st w = (st', w')"
  shows "optimized_files st' + skipped_files st' + failed_files st'
           = optimized_files st + skipped_files st + failed_files st + 1"
proof -
  have ok: "optimized_files stx + skipped_files stx + failed_files stx
              = optimized_files st0 + skipped_files st0 + failed_files st0 + 1"
    if "count_outcome en p st0 r = Inr stx" for st0 r stx
    using count_outcome_console[OF assms(1), of p st0 r] that by auto
  have no: "False" if "count_outcome en p st0 r = Inl (e, stx)" for st0 r e stx
    using count_outcome_console[OF assms(1), of p st0 r] that by auto
  show ?thesis
    using assms(2) count_exception_classes
    by (auto simp: try_file_def skip_file_def Let_def
             dest: ok no
             split: if_splits sum.splits prod.splits)
qed

lemma process_file_skip:
  "\<not> endswith (lower f) ''.pdf'' \<or> join r f \<in> pf \<or> contains (join r f) ''.temp_optimized.pdf''
     \<Longrightarrow> process_file en prm backup thr rm r f (st, pf, w) = (st, pf, w)"
  unfolding process_file_def Let_def by auto

lemma process_file_take:
  assumes "endswith (lower f) ''.pdf''" and "join r f \<notin> pf"
    and "\<not> contains (join r f) ''.temp_optimized.pdf''"
    and "try_file en prm backup thr rm (join r f) (st\<lparr>total_files := total_files st + 1\<rparr>) w
           = (st2, w2)"
  shows "process_file en prm backup thr rm r f (st, pf, w) = (st2, insert (join r f) pf, w2)"
  using assms unfolding process_file_def Let_def by simp

lemma process_file_steps:
  assumes "process_file en prm backup thr rm r f (st, pf, w) = (st', pf', w')"
  shows "total_files st' \<le> total_files st + (if endswith (lower f) ''.pdf'' then 1 else 0)"
    and "console_ok en \<Longrightarrow> counted st \<Longrightarrow> counted st'"
proof -
  let ?skip = "\<not> endswith (lower f) ''.pdf'' \<or> join r f \<in> pf
               \<or> contains (join r f) ''.temp_optimized.pdf''"
  obtain st2 w2 where
    t: "try_file en prm backup thr rm (join r f) (st\<lparr>total_files := total_files st + 1\<rparr>) w
          = (st2, w2)"
    by (cases "try_file en prm backup thr rm (join r f) (st\<lparr>total_files := total_files st + 1\<rparr>) w")
  have eq: "\<not> ?skip \<Longrightarrow> st' = st2"
    using process_file_take[OF _ _ _ t] assms by simp
  have sk: "?skip \<Longrightarrow> st' = st"
    using process_file_skip[of f r pf] assms by simp
  show "total_files st' \<le> total_files st + (if endswith (lower f) ''.pdf'' then 1 else 0)"
  proof (cases ?skip)
    case True with sk show ?thesis by simp
  next
    case False with eq try_file_total[OF t] show ?thesis by simp
  qed
  show "counted st'" if c: "console_ok en" and k: "counted st"
  proof (cases ?skip)
    case True with sk k show ?thesis by simp
  next
    case False
    with eq try_file_total[OF t] try_file_classes[OF c t] k show ?thesis
      by (simp add: counted_def)
  qed
qed

lemma fold_process_total:
  "total_files (fst (fold (process_file en prm backup thr rm r) fs s))
     \<le> total_files (fst s) + length (pdf_names fs)"
proof (induction fs arbitrary: s)
  case Nil
  then show ?case by (simp add: pdf_names_def)
next
  case (Cons f fs)
  obtain st pf w where s: "s = (st, pf, w)" by (cases s)
  obtain st' pf' w' where
    p: "process_file en prm backup thr rm r f (st, pf, w) = (st', pf', w')"
    by (cases "process_file en prm backup thr rm r f (st, pf, w)")
  from process_file_steps(1)[OF p] Cons.IH[of "(st', pf', w')"] s p show ?case
    by (auto simp: pdf_names_def)
qed

lemma fold_process_counted:
  assumes "console_ok en"
  shows "counted (fst s) \<Longrightarrow> counted (fst (fold (process_file en prm backup thr rm r) fs s))"
proof (induction fs arbitrary: s)
  case Nil
  then show ?case by simp
next
  case (Cons f fs)
  obtain st pf w where s: "s = (st, pf, w)" by (cases s)
  obtain st' pf' w' where
    p: "process_file en prm backup thr rm r f (st, pf, w) = (st', pf', w')"
    by (cases "process_file en prm backup thr rm r f (st, pf, w)")
  from Cons.prems s have "counted st" by simp
  from process_file_steps(2)[OF p assms this]
  have "counted (fst (process_file en prm backup thr rm r f s))" using s p by simp
  from Cons.IH[OF this] show ?case by simp
qed

lemma walk_files_total:
  "total_files (fst (walk_files en prm backup thr rm walk s))
     \<le> total_files (fst s) + sum_list (map (\<lambda>(r, fs). length (pdf_names fs)) walk)"
proof (induction walk arbitrary: s)
  case Nil
  then show ?case by (simp add: walk_files_def)
next
  case (Cons d ds)
  obtain r fs where d: "d = (r, fs)" by (cases d)
  let ?s1 = "fold (process_file en prm backup thr rm r) fs s"
  have w: "walk_files en prm backup thr rm (d # ds) s = walk_files en prm backup thr rm ds ?s1"
    using d by (simp add: walk_files_def)
  from Cons.IH[of ?s1] fold_process_total[of en prm backup thr rm r fs s] w d show ?case by simp
qed

lemma walk_files_counted:
  assumes "console_ok en"
  shows "counted (fst s) \<Longrightarrow> counted (fst (walk_files en prm backup thr rm walk s))"
proof (induction walk arbitrary: s)
  case Nil
  then show ?case by (simp add: walk_files_def)
next
  case (Cons d ds)
  obtain r fs where d: "d = (r, fs)" by (cases d)
  let ?s1 = "fold (process_file en prm backup thr rm r) fs s"
  have c: "counted (fst ?s1)" using Cons.prems by (rule fold_process_counted[OF assms])
  have w: "walk_files en prm backup thr rm (d # ds) s = walk_files en prm backup thr rm ds ?s1"
    using d by (simp add: walk_files_def)
  from Cons.IH[OF c] w show ?case by simp
qed

lemma optimize_pdfs_walk:
  "fst (optimize_pdfs en w walk level backup thr rm)
   = fst (walk_files en (params_of_level level) backup thr rm walk (initial_stats, {}, w))"
  by (simp add: optimize_pdfs_def split: prod.splits)

lemma counted_initial: "counted (fst (initial_stats, pf, w))"
  by (simp add: counted_def initial_stats_def)

text \<open>On a console that encodes every message, the classification of the counted files is
  exhaustive and disjoint at the end of every run.\<close>

lemma counted_if_console_ok:
  assumes "console_ok en"
  shows "counted (fst (optimize_pdfs en w walk level backup thr rm))"
  unfolding optimize_pdfs_walk
  using counted_initial by (rule walk_files_counted[OF assms])

subsection \<open>Files that reach the Single-File Optimizer\<close>

lemma try_file_reaches_optimizer:
  assumes "files w p = Some c" and "p \<notin> unreadable w"
    and "\<not> below_threshold thr (length c)" and "\<not> low_disk_space en p (length c)"
  shows "try_file en prm backup thr rm p st w
         = (case optimize_pdf en
                   (if backup then fst (shutil_copy2 en w p (p @ ''.backup'')) else w) p prm rm of
              (w2, Inr result) \<Rightarrow>
                (case count_outcome en p
                        (st\<lparr>original_size_bytes := original_size_bytes st + length c\<rparr>) result of
                   Inr st2 \<Rightarrow> (st2, w2)
                 | Inl (e, st2) \<Rightarrow> (count_exception st2 w2 p, w2))
            | (w2, Inl e) \<Rightarrow>
                (count_exception (st\<lparr>original_size_bytes := original_size_bytes st + length c\<rparr>)
                   w2 p, w2))"
  using assms
  by (simp add: try_file_def path_exists_def access_R_OK_def getsize_def Let_def)

subsection \<open>A file counted twice\<close>

text \<open>
  C5. The claim says that at the end of every run
  \<^verbatim>\<open>total_files = optimized_files + skipped_files + failed_files\<close>. The code breaks it:
  the message of lines 117--118 holds the arrow U+2192 and is printed after
  \<^verbatim>\<open>optimized_files\<close> has been incremented (line 108), inside the \<^verbatim>\<open>try\<close> of line 62.
  On a standard output that cannot encode the arrow the print raises, and the handler of
  line 126 counts the same file in \<^verbatim>\<open>failed_files\<close> too. One valid ten-byte PDF that is
  optimized to three bytes gives one file in total, one optimized and one failed.
\<close>

theorem optimize_pdfs_double_count:
  "snd (optimize_pdf noarrow_env (one_file a_pdf) a_pdf (params_of_level 1) False)
     = Inr \<lparr>success = True, original_size = 10, new_size = 3, error = None, repaired = False\<rparr>
   \<and> fst (optimize_pdfs noarrow_env (one_file a_pdf) [(''/docs'', [''a.pdf''])]
             1 False None False)
       = \<lparr>total_files = 1, optimized_files = 1, skipped_files = 0, failed_files = 1,
          repaired_files = 0, original_size_bytes = 10, optimized_size_bytes = 6\<rparr>"
proof -
  have t: "temp_optimized_pdf_path noarrow_env a_pdf = a_temp"
    by (rule temp_path_example) (simp_all add: noarrow_env_simps)
  let ?w = "\<lparr>files = [a_pdf \<mapsto> ''abc''], protected = {}, unreadable = {},
             log = [EvOpen a_pdf, EvSave a_temp False, EvClose a_pdf]\<rparr>"
  let ?r = "\<lparr>success = True, original_size = 10, new_size = 3, error = None, repaired = False\<rparr>"
  have o: "optimize_pdf noarrow_env (one_file a_pdf) a_pdf (params_of_level 1) False = (?w, Inr ?r)"
    by (simp add: optimizer_defs fs_defs engine_defs t noarrow_env_simps one_file_def ok_info_def
          fun_eq_iff)
  have j: "join ''/docs'' ''a.pdf'' = a_pdf" by (simp add: join_def endswith_def)
  have e: "endswith (lower ''a.pdf'') ''.pdf''"
    by (simp add: endswith_def lower_def lower_char_def)
  have c: "\<not> contains a_pdf ''.temp_optimized.pdf''" by simp
  have d: "\<not> low_disk_space noarrow_env a_pdf (length ''0123456789'')"
    by (simp add: low_disk_space_def noarrow_env_simps)
  have b: "\<not> below_threshold None (length ''0123456789'')"
    by (simp add: below_threshold_def)
  have f: "files (one_file a_pdf) a_pdf = Some ''0123456789''"
    and u: "a_pdf \<notin> unreadable (one_file a_pdf)"
    by (simp_all add: one_file_def)
  let ?st = "\<lparr>total_files = 1, optimized_files = 1, skipped_files = 0, failed_files = 1,
          repaired_files = 0, original_size_bytes = 10, optimized_size_bytes = 6\<rparr>"
  have co: "count_outcome noarrow_env a_pdf
              (initial_stats\<lparr>total_files := total_files initial_stats + 1,
                 original_size_bytes := original_size_bytes
                   (initial_stats\<lparr>total_files := total_files initial_stats + 1\<rparr>)
                   + length ''0123456789''\<rparr>) ?r
            = Inl (UnicodeEncodeError ''codec cannot encode character'',
                   \<lparr>total_files = 1, optimized_files = 1, skipped_files = 0, failed_files = 0,
                    repaired_files = 0, original_size_bytes = 10, optimized_size_bytes = 3\<rparr>)"
    by (simp add: count_outcome_def py_print_def print_ok_def noarrow_env_simps initial_stats_def)
  have ce: "count_exception
              \<lparr>total_files = 1, optimized_files = 1, skipped_files = 0, failed_files = 0,
                repaired_files = 0, original_size_bytes = 10, optimized_size_bytes = 3\<rparr>
              ?w a_pdf = ?st"
    by (simp add: count_exception_def path_exists_def getsize_def)
  have tf: "try_file noarrow_env (params_of_level 1) False None False a_pdf
              (initial_stats\<lparr>total_files := total_files initial_stats + 1\<rparr>) (one_file a_pdf)
            = (?st, ?w)"
    by (simp only: try_file_reaches_optimizer[OF f u b d] if_False o prod.case sum.case co ce)
  have pf: "process_file noarrow_env (params_of_level 1) False None False ''/docs''
              ''a.pdf'' (initial_stats, {}, one_file a_pdf)
            = (?st, {a_pdf}, ?w)"
    using process_file_take[of "''a.pdf''" "''/docs''" "{}"
            noarrow_env "params_of_level 1" False None False initial_stats "one_file a_pdf" ?st ?w]
          e c tf
    by (simp only: j) simp
  have r: "fst (optimize_pdfs noarrow_env (one_file a_pdf) [(''/docs'', [''a.pdf''])]
             1 False None False) = ?st"
    unfolding optimize_pdfs_def walk_files_def by (simp add: pf)
  show ?thesis by (simp add: o r)
qed

subsection \<open>Files that are not PDFs by name\<close>

lemma process_file_not_pdf:
  "\<not> endswith (lower f) ''.pdf'' \<Longrightarrow> process_file en prm backup thr rm r f s = s"
  by (cases s) (simp add: process_file_def)

lemma fold_process_pdf_names:
  "fold (process_file en prm backup thr rm r) fs s
   = fold (process_file en prm backup thr rm r) (pdf_names fs) s"
  by (induction fs arbitrary: s) (simp_all add: pdf_names_def process_file_not_pdf)

lemma walk_files_pdf_only:
  "walk_files en prm backup thr rm walk s = walk_files en prm backup thr rm (pdf_only walk) s"
proof (induction walk arbitrary: s)
  case Nil
  show ?case by (simp add: pdf_only_def)
next
  case (Cons d ds)
  obtain r fs where d: "d = (r, fs)" by (cases d)
  have "walk_files en prm backup thr rm (d # ds) s
        = walk_files en prm backup thr rm ds (fold (process_file en prm backup thr rm r) fs s)"
    using d by (simp add: walk_files_def)
  also have "\<dots> = walk_files en prm backup thr rm (pdf_only ds)
                     (fold (process_file en prm backup thr rm r) (pdf_names fs) s)"
    using Cons.IH fold_process_pdf_names[of en prm backup thr rm r fs s] by simp
  also have "\<dots> = walk_files en prm backup thr rm (pdf_only (d # ds)) s"
    using d by (simp add: walk_files_def pdf_only_def)
  finally show ?case .
qed

text \<open>
  C9. During the walk only the files whose names end with \<^verbatim>\<open>.pdf\<close>, in any case of
  the letters, are candidates. Every other file is ignored: the run has the same result
  (statistics and file system) as the run on the walk without those files, and
  \<^verbatim>\<open>total_files\<close> is at most the number of names that end with \<^verbatim>\<open>.pdf\<close>.
\<close>

theorem optimize_pdfs_only_pdf_names:
  "optimize_pdfs en w walk level backup thr rm
     = optimize_pdfs en w (pdf_only walk) level backup thr rm
   \<and> total_files (fst (optimize_pdfs en w walk level backup thr rm))
       \<le> sum_list (map (\<lambda>(r, fs). length (pdf_names fs)) walk)"
proof -
  have "optimize_pdfs en w walk level backup thr rm
          = optimize_pdfs en w (pdf_only walk) level backup thr rm"
    unfolding optimize_pdfs_def
    using walk_files_pdf_only[of en "params_of_level level" backup thr rm walk] by simp
  moreover have "total_files (fst (optimize_pdfs en w walk level backup thr rm))
       \<le> sum_list (map (\<lambda>(r, fs). length (pdf_names fs)) walk)"
    unfolding optimize_pdfs_walk
    using walk_files_total[of en "params_of_level level" backup thr rm walk "(initial_stats, {}, w)"]
    by (simp add: initial_stats_def)
  ultimately show ?thesis by simp
qed

subsection \<open>Encrypted documents\<close>




subsection \<open>Exceptions of the Single-File Optimizer\<close>




subsection \<open>The size gate\<close>







subsection \<open>What the Single-File Optimizer does to the original file\<close>









subsection \<open>The size gate of the replacement\<close>





subsection \<open>The original file after the call\<close>




subsection \<open>The last resort of the save attempts\<close>

text \<open>
  C3. The claim says that, in repair mode, when the standard save and the conservative
  save both fail, page-by-page reconstruction runs and writes to the temporary path.
  The code does not: line 230 calls \<^verbatim>\<open>page_by_page_recovery\<close> with two arguments, the
  function (line 339) takes one, and the call raises \<^verbatim>\<open>TypeError\<close> before any
  reconstruction. For a file that opens and whose two saves fail, the engine sees the
  open, the two saves and the close, and nothing after; the outcome is a failure whose
  error is the message of the \<^verbatim>\<open>TypeError\<close>.
\<close>

theorem optimize_pdf_last_resort_type_error:
  "optimize_pdf nosave_env (one_file a_pdf) a_pdf (params_of_level 1) True
   = (\<lparr>files = [a_pdf \<mapsto> ''0123456789''], protected = {}, unreadable = {},
       log = [EvOpen a_pdf, EvSave a_temp False, EvSave a_temp True, EvClose a_pdf]\<rparr>,
      Inr \<lparr>success = False, original_size = 10, new_size = 10,
            error = Some ''page_by_page_recovery() takes 1 positional argument but 2 were given'',
            repaired = False\<rparr>)"
proof -
  have t: "temp_optimized_pdf_path nosave_env a_pdf = a_temp"
    by (rule temp_path_example) (simp_all add: nosave_env_simps)
  show ?thesis
    by (simp add: optimizer_defs fs_defs engine_defs call_two_args t nosave_env_simps
          one_file_def ok_info_def fun_eq_iff)
qed

subsection \<open>Exceptions of the Repair Pipeline\<close>

text \<open>Once the temporary file has been created, every exception is caught and the
  function returns.\<close>

lemma page_by_page_recovery_returns:
  assumes "named_temp en p = Inr t" and "t \<notin> protected w" and "files w t = None"
  shows "\<exists>r. snd (page_by_page_recovery en w p) = Inr r"
proof -
  obtain w1 x where d: "direct_open en w p = (w1, x)" by (cases "direct_open en w p")
  have "protected w1 = protected w \<and> files w1 = files w"
    using d by (auto simp: direct_open_def fitz_open_def doc_close_def split: sum.splits if_splits)
  with assms have "named_temporary_file en w1 p = (write_file w1 t [], Inr t)"
    by (simp add: named_temporary_file_def path_exists_def)
  with d show ?thesis
    by (cases x) (auto simp: page_by_page_recovery_def split: prod.splits sum.splits)
qed

text \<open>
  C8. The claim says that \<^verbatim>\<open>page_by_page_recovery\<close> returns its failure value and
  never raises. The code raises when \<^verbatim>\<open>tempfile.NamedTemporaryFile\<close> (line 362)
  fails: the handler of line 408 catches that exception, but the \<^verbatim>\<open>finally\<close> clause
  (line 412) reads \<^verbatim>\<open>temp_file.name\<close>, \<^verbatim>\<open>temp_file\<close> was never bound, and the
  \<^verbatim>\<open>UnboundLocalError\<close> leaves the function.
\<close>

theorem page_by_page_recovery_raises:
  "page_by_page_recovery notemp_env (one_file a_pdf) a_pdf
   = (\<lparr>files = [a_pdf \<mapsto> ''0123456789''], protected = {}, unreadable = {},
       log = [EvOpen a_pdf]\<rparr>,
      Inl (UnboundLocalError ''local variable temp_file referenced before assignment''))"
  by (simp add: repair_defs fs_defs engine_defs notemp_env_simps one_file_def)

subsection \<open>Temporary files in the walk\<close>

text \<open>
  C4. The claim says that a path with the name pattern of the tool's own temporary
  files is ignored by the walk. The code does not ignore it: the walk (line 56) looks
  for the text \<^verbatim>\<open>.temp_optimized.pdf\<close>, while \<^verbatim>\<open>optimize_pdf\<close> (line 172) names its
  temporary file \<^verbatim>\<open>.temp_opt_<name>_<pid>_<time>.pdf\<close>. The temporary file of
  \<^verbatim>\<open>/docs/a.pdf\<close>, left behind in \<^verbatim>\<open>/docs\<close>, does not contain that text, ends with
  \<^verbatim>\<open>.pdf\<close>, is counted, and is passed to the Single-File Optimizer.
\<close>

theorem leftover_temp_file_is_processed:
  "temp_optimized_pdf_path ex_env a_pdf = a_temp
   \<and> join ''/docs'' ''.temp_opt_a.pdf_4242_1700000000.pdf'' = a_temp
   \<and> \<not> contains a_temp ''.temp_optimized.pdf''
   \<and> fst (optimize_pdfs ex_env (one_file a_temp)
             [(''/docs'', [''.temp_opt_a.pdf_4242_1700000000.pdf''])] 1 False None False)
       = \<lparr>total_files = 1, optimized_files = 1, skipped_files = 0, failed_files = 0,
          repaired_files = 0, original_size_bytes = 10, optimized_size_bytes = 3\<rparr>
   \<and> log (snd (optimize_pdfs ex_env (one_file a_temp)
             [(''/docs'', [''.temp_opt_a.pdf_4242_1700000000.pdf''])] 1 False None False))
       = [EvOpen a_temp,
          EvSave ''/docs/.temp_opt_.temp_opt_a.pdf_4242_1700000000.pdf_4242_1700000000.pdf'' False,
          EvClose a_temp]"
proof -
  have t: "temp_optimized_pdf_path ex_env a_pdf = a_temp"
    by (rule temp_path_example) (simp_all add: ex_env_simps)
  have j: "join ''/docs'' ''.temp_opt_a.pdf_4242_1700000000.pdf'' = a_temp"
    by (simp add: join_def endswith_def)
  have c: "\<not> contains a_temp ''.temp_optimized.pdf''" by simp
  have e: "endswith (lower ''.temp_opt_a.pdf_4242_1700000000.pdf'') ''.pdf''"
    by (simp add: endswith_def lower_def lower_char_def)
  have tt: "temp_optimized_pdf_path ex_env a_temp
            = ''/docs/.temp_opt_.temp_opt_a.pdf_4242_1700000000.pdf_4242_1700000000.pdf''"
    by (simp add: path_defs ex_env_simps)
  have o: "optimize_pdf ex_env (one_file a_temp) a_temp (params_of_level 1) False
     = (\<lparr>files = [a_temp \<mapsto> ''abc''], protected = {}, unreadable = {},
         log = [EvOpen a_temp,
          EvSave ''/docs/.temp_opt_.temp_opt_a.pdf_4242_1700000000.pdf_4242_1700000000.pdf'' False,
          EvClose a_temp]\<rparr>,
        Inr \<lparr>success = True, original_size = 10, new_size = 3, error = None,
              repaired = False\<rparr>)"
    by (simp add: optimizer_defs fs_defs engine_defs tt ex_env_simps one_file_def ok_info_def
          fun_eq_iff)
  have d: "\<not> low_disk_space ex_env a_temp (length ''0123456789'')"
    by (simp add: low_disk_space_def ex_env_simps)
  have b: "\<not> below_threshold None (length ''0123456789'')"
    by (simp add: below_threshold_def)
  have f: "files (one_file a_temp) a_temp = Some ''0123456789''"
    and u: "a_temp \<notin> unreadable (one_file a_temp)"
    by (simp_all add: one_file_def)
  have tf: "try_file ex_env (params_of_level 1) False None False a_temp
              (initial_stats\<lparr>total_files := total_files initial_stats + 1\<rparr>) (one_file a_temp)
            = (\<lparr>total_files = 1, optimized_files = 1, skipped_files = 0, failed_files = 0,
                 repaired_files = 0, original_size_bytes = 10, optimized_size_bytes = 3\<rparr>,
               \<lparr>files = [a_temp \<mapsto> ''abc''], protected = {}, unreadable = {},
         log = [EvOpen a_temp,
          EvSave ''/docs/.temp_opt_.temp_opt_a.pdf_4242_1700000000.pdf_4242_1700000000.pdf'' False,
          EvClose a_temp]\<rparr>)"
    by (simp add: try_file_reaches_optimizer[OF f u b d] o count_outcome_def initial_stats_def
          py_print_def print_ok_def ex_env_simps)
  let ?st = "\<lparr>total_files = 1, optimized_files = 1, skipped_files = 0, failed_files = 0,
                 repaired_files = 0, original_size_bytes = 10, optimized_size_bytes = 3\<rparr>"
  let ?w = "\<lparr>files = [a_temp \<mapsto> ''abc''], protected = {}, unreadable = {},
         log = [EvOpen a_temp,
          EvSave ''/docs/.temp_opt_.temp_opt_a.pdf_4242_1700000000.pdf_4242_1700000000.pdf'' False,
          EvClose a_temp]\<rparr>"
  have pf: "process_file ex_env (params_of_level 1) False None False ''/docs''
              ''.temp_opt_a.pdf_4242_1700000000.pdf'' (initial_stats, {}, one_file a_temp)
            = (?st, {a_temp}, ?w)"
    using process_file_take[of "''.temp_opt_a.pdf_4242_1700000000.pdf''" "''/docs''" "{}"
            ex_env "params_of_level 1" False None False initial_stats "one_file a_temp" ?st ?w]
          e c tf
    by (simp only: j) simp
  have r: "optimize_pdfs ex_env (one_file a_temp)
             [(''/docs'', [''.temp_opt_a.pdf_4242_1700000000.pdf''])] 1 False None False
           = (?st, ?w)"
    unfolding optimize_pdfs_def walk_files_def by (simp add: pf)
  show ?thesis using t j c by (simp add: r)
qed

subsection \<open>Encrypted documents in a directory run\<close>







end
